theory Spec2Isabelle
  imports Complex_Main
begin

unbundle bit_operations_syntax

section \<open>The PS3 rover controller (ps3rover20.py)\<close>

text \<open>
  A shallow embedding of \<^verbatim>\<open>ps3rover20.py\<close>. The object \<^verbatim>\<open>self\<close> is a record that
  every method takes and returns. What the program reads from outside (the controller
  after \<^verbatim>\<open>pygame.event.pump()\<close>, the readings of \<^verbatim>\<open>time.time()\<close>, the outcome of
  the OpenCV calls, a failing file write) is an explicit input of the method that reads
  it. What the program does to the outside (commands to the vehicle, the window) is
  appended to the field \<open>trace\<close>, in program order. Console output is left out.

  Python floats are modelled as reals: the program negates, subtracts and compares them,
  and never produces a NaN itself. Exceptions are values of the type \<open>exn\<close>.
\<close>

subsection \<open>Constants\<close>

definition BUTTON_LIGHTS :: nat where "BUTTON_LIGHTS = 3"
definition BUTTON_STEALTH :: nat where "BUTTON_STEALTH = 1"
definition BUTTON_CAMERA_UP :: nat where "BUTTON_CAMERA_UP = 0"
definition BUTTON_CAMERA_DOWN :: nat where "BUTTON_CAMERA_DOWN = 2"

definition MIN_BUTTON_LAG_SEC :: real where "MIN_BUTTON_LAG_SEC = 0.5"
definition MIN_AXIS_ABSVAL :: real where "MIN_AXIS_ABSVAL = 0.01"

subsection \<open>Data\<close>

datatype exn =
    RuntimeError | KeyboardInterrupt | SystemExit int
  | IOError | ValueError | Cv2Error | OtherException

text \<open>\<^verbatim>\<open>except Exception\<close> catches everything but the two \<^verbatim>\<open>BaseException\<close>s.\<close>

fun is_Exception :: "exn \<Rightarrow> bool" where
  "is_Exception KeyboardInterrupt = False"
| "is_Exception (SystemExit c) = False"
| "is_Exception e = True"

type_synonym image = "nat list"

text \<open>
  The calls the program makes on its collaborators, as they appear in \<open>trace\<close>: the
  vehicle commands inherited from \<^verbatim>\<open>Rover20\<close>, the two OpenCV window calls, the close of
  the capture file, and the entry into \<^verbatim>\<open>cleanup()\<close> itself.
\<close>

datatype call =
    TurnLightsOn | TurnLightsOff | TurnStealthOn | TurnStealthOff
  | MoveCameraVertical int
  | SetTreads int int
  | Close
  | Imshow image
  | DestroyAllWindows
  | PcmClose
  | Cleanup

fun is_camera :: "call \<Rightarrow> bool" where
  "is_camera (MoveCameraVertical d) = True"
| "is_camera c = False"

text \<open>The state of the joystick as \<^verbatim>\<open>get_button\<close> and \<^verbatim>\<open>get_axis\<close> report it.\<close>

record controller =
  get_button :: "nat \<Rightarrow> bool"
  get_axis :: "nat \<Rightarrow> real"

text \<open>The capture file \<^verbatim>\<open>rover20.pcm\<close>: the characters written so far, and whether
  \<^verbatim>\<open>close()\<close> has been called on it.\<close>

record pcm =
  content :: string
  is_closed :: bool

record rover =
  quit :: bool
  controller :: controller
  lights_are_on :: bool
  stealth_is_on :: bool
  last_button_time :: real
  video_enabled :: bool
  cv2_loaded :: bool
  pcm_file :: "pcm option"
  trace :: "call list"

text \<open>
  Modelled from the spec: the class \<^verbatim>\<open>Rover20\<close> (module \<^verbatim>\<open>rover\<close>) is not part of the
  sources at hand. Its methods \<^verbatim>\<open>turnLightsOn\<close>, \<^verbatim>\<open>turnLightsOff\<close>, \<^verbatim>\<open>turnStealthOn\<close>,
  \<^verbatim>\<open>turnStealthOff\<close>, \<^verbatim>\<open>moveCameraVertical\<close>, \<^verbatim>\<open>setTreads\<close> and \<^verbatim>\<open>close\<close> are the
  command interface of the spec's section 6; a call is recorded in \<open>trace\<close> and returns.
\<close>

definition vehicle :: "call \<Rightarrow> rover \<Rightarrow> rover" where
  "vehicle c self = self\<lparr>trace := trace self @ [c]\<rparr>"

text \<open>\<^verbatim>\<open>if on_routine: on_routine()\<close>: a routine that is \<^verbatim>\<open>None\<close> is not called.\<close>

definition invoke :: "call option \<Rightarrow> rover \<Rightarrow> rover" where
  "invoke routine self = (case routine of None \<Rightarrow> self | Some c \<Rightarrow> vehicle c self)"

subsection \<open>Inputs of one callback\<close>

datatype decode_outcome =
    DecodeImage image
  | DecodeNone
  | DecodeRaises exn

text \<open>
  One video frame, with everything \<^verbatim>\<open>processVideo\<close> reads while it handles the frame:
  the controller after the pump, the clock as the lights check and the stealth check
  read it (each reads it only when its button is down), what
  \<^verbatim>\<open>cv2.imdecode(np.frombuffer(jpegbytes, np.uint8), cv2.IMREAD_COLOR)\<close> gives for the
  payload (an image, \<^verbatim>\<open>None\<close>, or an exception), whether \<^verbatim>\<open>imshow\<close> raises, and what
  \<^verbatim>\<open>cv2.waitKey(1)\<close> returns or raises.
\<close>

record tick =
  snapshot :: controller
  clock_lights :: real
  clock_stealth :: real
  decoded :: decode_outcome
  imshow_raises :: "exn option"
  wait_key :: "exn + int"

text \<open>One audio batch; \<open>write_fails_at = Some k\<close> when the write of the sample at
  index \<open>k\<close> raises \<^verbatim>\<open>IOError\<close>.\<close>

record audio =
  samples :: "int list"
  write_fails_at :: "nat option"

subsection \<open>Axis mapping and the debounced buttons\<close>

definition get_axis_value :: "rover \<Rightarrow> nat \<Rightarrow> int" where
  "get_axis_value self index =
     (let val = - get_axis (controller self) index in
      if val > MIN_AXIS_ABSVAL then 1
      else if val < - MIN_AXIS_ABSVAL then - 1
      else 0)"

text \<open>
  \<^verbatim>\<open>_check_button\<close> returns the new flag and the object; \<open>now\<close> is what
  \<^verbatim>\<open>time.time()\<close> returns when the button is down.
\<close>

definition check_button ::
  "rover \<Rightarrow> bool \<Rightarrow> nat \<Rightarrow> call option \<Rightarrow> call option \<Rightarrow> real \<Rightarrow> bool \<times> rover" where
  "check_button self flag button_id on_routine off_routine now =
     (if get_button (controller self) button_id then
        (let current_time = now in
         if current_time - last_button_time self > MIN_BUTTON_LAG_SEC then
           (let self' = self\<lparr>last_button_time := current_time\<rparr> in
            if flag then (False, invoke off_routine self')
            else (True, invoke on_routine self'))
         else (flag, self))
      else (flag, self))"

text \<open>
  A run of consecutive calls of \<^verbatim>\<open>_check_button\<close> for one control, the flag each call
  returns being passed to the next, at the clock readings \<open>ts\<close>. The third component
  counts the calls that returned a flag different from the one they were given.
\<close>

fun evaluate_calls ::
  "rover \<Rightarrow> bool \<Rightarrow> nat \<Rightarrow> call option \<Rightarrow> call option \<Rightarrow> real list \<Rightarrow> bool \<times> rover \<times> nat" where
  "evaluate_calls self flag button_id on_routine off_routine [] = (flag, self, 0)"
| "evaluate_calls self flag button_id on_routine off_routine (t # ts) =
     (case check_button self flag button_id on_routine off_routine t of
        (flag', self') \<Rightarrow>
          (case evaluate_calls self' flag' button_id on_routine off_routine ts of
             (flag'', self'', n) \<Rightarrow> (flag'', self'', n + (if flag' = flag then 0 else 1))))"

subsection \<open>The video callback\<close>

text \<open>
  Lines 120 to 144 of \<^verbatim>\<open>processVideo\<close>: pump the controller, evaluate the lights and the
  stealth button, command the camera and the treads.
\<close>

definition drive_controls :: "rover \<Rightarrow> tick \<Rightarrow> rover" where
  "drive_controls self0 i =
     (let self1 = self0\<lparr>controller := snapshot i\<rparr>;
          (lights, self2) =
             check_button self1 (lights_are_on self1) BUTTON_LIGHTS
               (Some TurnLightsOn) (Some TurnLightsOff) (clock_lights i);
          self3 = self2\<lparr>lights_are_on := lights\<rparr>;
          (stealth, self4) =
             check_button self3 (stealth_is_on self3) BUTTON_STEALTH
               (Some TurnStealthOn) (Some TurnStealthOff) (clock_stealth i);
          self5 = self4\<lparr>stealth_is_on := stealth\<rparr>;
          self6 =
            (if get_button (controller self5) BUTTON_CAMERA_UP
               then vehicle (MoveCameraVertical 1) self5
             else if get_button (controller self5) BUTTON_CAMERA_DOWN
               then vehicle (MoveCameraVertical (- 1)) self5
             else vehicle (MoveCameraVertical 0) self5)
      in vehicle (SetTreads (get_axis_value self6 1) (get_axis_value self6 3)) self6)"

text \<open>
  The body of the \<^verbatim>\<open>try\<close> of lines 148 to 158. The result carries the object as it is
  when the body ends, and the exception that ended it, if one did.
\<close>

definition show_frame :: "rover \<Rightarrow> tick \<Rightarrow> rover \<times> exn option" where
  "show_frame self i =
     (case decoded i of
        DecodeRaises e \<Rightarrow> (self, Some e)
      | DecodeNone \<Rightarrow> (self, None)
      | DecodeImage img \<Rightarrow>
          (case imshow_raises i of
             Some e \<Rightarrow> (self, Some e)
           | None \<Rightarrow>
               (let self1 = self\<lparr>trace := trace self @ [Imshow img]\<rparr> in
                case wait_key i of
                  Inl e \<Rightarrow> (self1, Some e)
                | Inr k \<Rightarrow>
                    (let key = k AND 255 in
                     if key = 27 then (self1\<lparr>quit := True\<rparr>, None)
                     else (self1, None)))))"

text \<open>
  Lines 146 to 161: the guard on the window, and the handler
  \<^verbatim>\<open>except (cv2.error, ValueError)\<close>, which lets any other exception through.
\<close>

definition display_video :: "rover \<Rightarrow> tick \<Rightarrow> rover \<times> exn option" where
  "display_video self i =
     (if video_enabled self \<and> cv2_loaded self then
        (case show_frame self i of
           (self', None) \<Rightarrow> (self', None)
         | (self', Some e) \<Rightarrow>
             if e = Cv2Error \<or> e = ValueError then (self', None) else (self', Some e))
      else (self, None))"

definition processVideo :: "rover \<Rightarrow> tick \<Rightarrow> rover \<times> exn option" where
  "processVideo self i = display_video (drive_controls self i) i"

subsection \<open>The audio callback\<close>

text \<open>Python's \<^verbatim>\<open>str\<close> of an integer, which is what \<^verbatim>\<open>f'{samp}'\<close> formats.\<close>

definition digit_char :: "nat \<Rightarrow> char" where
  "digit_char d = ''0123456789'' ! d"

fun str_nat :: "nat \<Rightarrow> string" where
  "str_nat n = (if n < 10 then [digit_char n] else str_nat (n div 10) @ [digit_char (n mod 10)])"

definition str_int :: "int \<Rightarrow> string" where
  "str_int k = (if k < 0 then CHR ''-'' # str_nat (nat (- k)) else str_nat (nat k))"

definition newline :: char where
  "newline = CHR 0x0A"

definition sample_line :: "int \<Rightarrow> string" where
  "sample_line samp = str_int samp @ [newline]"

text \<open>
  The loop \<^verbatim>\<open>for samp in pcmsamples: self.pcm_file.write(f'{samp}\n')\<close>. A write on a
  closed file raises \<^verbatim>\<open>ValueError\<close>; \<open>fails = Some 0\<close> says that this write raises
  \<^verbatim>\<open>IOError\<close>. Either exception ends the loop.
\<close>

fun write_samples :: "pcm \<Rightarrow> nat option \<Rightarrow> int list \<Rightarrow> pcm \<times> exn option" where
  "write_samples f fails [] = (f, None)"
| "write_samples f fails (samp # rest) =
     (if is_closed f then (f, Some ValueError)
      else if fails = Some 0 then (f, Some IOError)
      else write_samples (f\<lparr>content := content f @ sample_line samp\<rparr>)
             (map_option (\<lambda>k. k - 1) fails) rest)"

definition processAudio :: "rover \<Rightarrow> audio \<Rightarrow> rover \<times> exn option" where
  "processAudio self a =
     (case pcm_file self of
        None \<Rightarrow> (self, None)
      | Some f \<Rightarrow>
          (case write_samples f (write_fails_at a) (samples a) of
             (f', e) \<Rightarrow>
               (self\<lparr>pcm_file := Some f'\<rparr>, if e = Some IOError then None else e)))"

subsection \<open>Construction and cleanup\<close>

text \<open>
  What \<^verbatim>\<open>PS3Rover.__init__\<close> meets: whether \<^verbatim>\<open>Rover20.__init__\<close> raises, the number of
  joysticks, the first joystick, whether \<^verbatim>\<open>import cv2\<close> succeeded, and whether
  \<^verbatim>\<open>cv2.namedWindow\<close> and \<^verbatim>\<open>open('rover20.pcm', 'w')\<close> raise.
\<close>

record startup =
  rover_connect :: "exn option"
  joystick_count :: nat
  joystick :: controller
  cv2_import :: bool
  named_window :: "exn option"
  open_pcm :: "exn option"

text \<open>Lines 84 to 90: the window is created only when OpenCV was imported, and
  only \<^verbatim>\<open>cv2.error\<close> is caught.\<close>

definition create_window :: "startup \<Rightarrow> exn + bool" where
  "create_window env =
     (if cv2_import env then
        (case named_window env of
           None \<Rightarrow> Inr True
         | Some e \<Rightarrow> if e = Cv2Error then Inr False else Inl e)
      else Inr False)"

text \<open>Lines 93 to 97: mode \<^verbatim>\<open>'w'\<close> gives an empty file; only \<^verbatim>\<open>IOError\<close> is caught.\<close>

definition open_capture :: "startup \<Rightarrow> exn + pcm option" where
  "open_capture env =
     (case open_pcm env of
        None \<Rightarrow> Inr (Some \<lparr>content = [], is_closed = False\<rparr>)
      | Some e \<Rightarrow> if e = IOError then Inr None else Inl e)"

text \<open>
  When \<^verbatim>\<open>__init__\<close> raises, the object it was building is dropped and freed. The
  destructor then calls \<^verbatim>\<open>cleanup\<close> on it, and \<^verbatim>\<open>cleanup\<close> reads \<^verbatim>\<open>self.pcm_file\<close>
  first: \<open>Unbound\<close> is an object on which line 93 has not yet bound that attribute,
  \<open>Bound r\<close> one on which every attribute that \<^verbatim>\<open>cleanup\<close> reads is bound.
\<close>

datatype wreck = Unbound | Bound rover

definition PS3Rover_init :: "startup \<Rightarrow> exn \<times> wreck + rover" where
  "PS3Rover_init env =
     (case rover_connect env of
        Some e \<Rightarrow> Inl (e, Unbound)
      | None \<Rightarrow>
          if joystick_count env = 0 then Inl (RuntimeError, Unbound)
          else
            (case create_window env of
               Inl e \<Rightarrow> Inl (e, Unbound)
             | Inr enabled \<Rightarrow>
                 (case open_capture env of
                    Inl e \<Rightarrow>
                      Inl (e, Bound \<lparr>quit = False, controller = joystick env,
                           lights_are_on = False, stealth_is_on = False,
                           last_button_time = 0, video_enabled = enabled,
                           cv2_loaded = cv2_import env, pcm_file = None, trace = []\<rparr>)
                  | Inr file \<Rightarrow>
                      Inr \<lparr>quit = False, controller = joystick env,
                           lights_are_on = False, stealth_is_on = False,
                           last_button_time = 0, video_enabled = enabled,
                           cv2_loaded = cv2_import env, pcm_file = file, trace = []\<rparr>)))"

text \<open>
  \<^verbatim>\<open>cleanup\<close>. An \<^verbatim>\<open>IOError\<close> of \<^verbatim>\<open>close()\<close> is swallowed and the file object is closed
  either way, so the two outcomes of the \<^verbatim>\<open>try\<close> are one.
\<close>

definition cleanup :: "rover \<Rightarrow> rover" where
  "cleanup self0 =
     (let self1 = self0\<lparr>trace := trace self0 @ [Cleanup]\<rparr>;
          self2 =
            (case pcm_file self1 of
               None \<Rightarrow> self1
             | Some f \<Rightarrow>
                 self1\<lparr>pcm_file := Some (f\<lparr>is_closed := True\<rparr>),
                       trace := trace self1 @ [PcmClose]\<rparr>)
      in if video_enabled self2 \<and> cv2_loaded self2
         then self2\<lparr>trace := trace self2 @ [DestroyAllWindows]\<rparr>
         else self2)"

text \<open>\<^verbatim>\<open>__del__\<close>, which runs when the object is freed.\<close>

definition rover_del :: "rover \<Rightarrow> rover" where
  "rover_del self = cleanup self"

text \<open>
  The calls of \<^verbatim>\<open>__del__\<close> on the object of a failed \<^verbatim>\<open>__init__\<close>. On an \<open>Unbound\<close> one
  \<^verbatim>\<open>cleanup\<close> is entered and its first line raises \<^verbatim>\<open>AttributeError\<close>, which a destructor
  cannot pass on.
\<close>

definition wreck_del :: "wreck \<Rightarrow> call list" where
  "wreck_del w = (case w of Unbound \<Rightarrow> [Cleanup] | Bound r \<Rightarrow> trace (rover_del r))"

subsection \<open>The signal handler and main\<close>

text \<open>
  \<^verbatim>\<open>frame.f_globals.get('rover')\<close> while \<open>live\<close> is the object that \<^verbatim>\<open>main\<close> holds: the
  handler interrupts the loop of \<^verbatim>\<open>main\<close>, whose globals are the module's. The module
  binds \<^verbatim>\<open>Rover20\<close> (by \<^verbatim>\<open>from rover import Rover20\<close>) and no name \<^verbatim>\<open>rover\<close>; the
  \<^verbatim>\<open>rover\<close> of \<^verbatim>\<open>main\<close> is a local variable. So the lookup gives \<^verbatim>\<open>None\<close>.
\<close>

definition f_globals_get_rover :: "rover \<Rightarrow> rover option" where
  "f_globals_get_rover live = None"

text \<open>\<^verbatim>\<open>_signal_handler\<close>, given what the lookup found: it returns that object as it
  leaves it, and the exception that \<^verbatim>\<open>sys.exit(0)\<close> raises.\<close>

definition signal_handler :: "rover option \<Rightarrow> rover option \<times> exn" where
  "signal_handler found =
     (case found of
        None \<Rightarrow> (None, SystemExit 0)
      | Some r \<Rightarrow> (Some (vehicle Close (cleanup r)), SystemExit 0))"

text \<open>
  What reaches the program while \<^verbatim>\<open>main\<close> sleeps in its loop: a video frame or an audio
  batch (the vehicle's media thread calls the callback), or SIGINT. The arrivals are
  taken one at a time.
\<close>

datatype arrival = VideoFrame tick | AudioBatch audio | Interrupt

datatype loop_result =
    LoopEnded rover
  | LoopRaised exn rover
  | LoopSleeping rover

text \<open>
  \<^verbatim>\<open>while not rover.quit: time.sleep(0.01)\<close> over a finite sequence of arrivals. When the
  arrivals are used up and \<open>quit\<close> is still false the loop goes on sleeping
  (\<open>LoopSleeping\<close>). An exception of a callback ends the media thread's call, not the
  loop, so the loop goes on with the object as the callback left it. The handler works
  on the object it found, if it found one, and its exception ends the loop.
\<close>

fun control_loop :: "rover \<Rightarrow> arrival list \<Rightarrow> loop_result" where
  "control_loop rover [] = (if quit rover then LoopEnded rover else LoopSleeping rover)"
| "control_loop rover (a # arrivals) =
     (if quit rover then LoopEnded rover
      else
        (case a of
           VideoFrame i \<Rightarrow> control_loop (fst (processVideo rover i)) arrivals
         | AudioBatch b \<Rightarrow> control_loop (fst (processAudio rover b)) arrivals
         | Interrupt \<Rightarrow>
             (case signal_handler (f_globals_get_rover rover) of
                (None, e) \<Rightarrow> LoopRaised e rover
              | (Some rover', e) \<Rightarrow> LoopRaised e rover')))"

text \<open>The object as the loop leaves it.\<close>

fun rover_of :: "loop_result \<Rightarrow> rover" where
  "rover_of (LoopEnded r) = r"
| "rover_of (LoopRaised e r) = r"
| "rover_of (LoopSleeping r) = r"

text \<open>
  What the media thread still delivers while \<^verbatim>\<open>main\<close> is in its \<^verbatim>\<open>finally\<close> block,
  after \<^verbatim>\<open>cleanup()\<close> and before \<^verbatim>\<open>close()\<close> stops the thread.
\<close>

datatype delivery = LateFrame tick | LateBatch audio

text \<open>The callbacks for these deliveries, one after the other, with the exceptions that
  leave them (they end the media thread's call, not \<^verbatim>\<open>main\<close>).\<close>

fun deliver :: "rover \<Rightarrow> delivery list \<Rightarrow> rover \<times> exn list" where
  "deliver rover [] = (rover, [])"
| "deliver rover (d # ds) =
     (case (case d of LateFrame i \<Rightarrow> processVideo rover i
                    | LateBatch b \<Rightarrow> processAudio rover b) of
        (rover', e) \<Rightarrow>
          (case deliver rover' ds of
             (rover'', es) \<Rightarrow> (rover'', (case e of None \<Rightarrow> [] | Some x \<Rightarrow> [x]) @ es)))"

text \<open>
  The run of the program: \<open>Exited status calls surfaced\<close> when the process has ended
  with that exit status after the calls \<open>calls\<close>, \<open>surfaced\<close> being the exceptions
  that left a callback during the shutdown; \<open>Running rover\<close> when it is still in its
  loop.
\<close>

datatype run = Exited int "call list" "exn list" | Running rover

text \<open>The \<^verbatim>\<open>finally\<close> block of \<^verbatim>\<open>main\<close>, given the local \<^verbatim>\<open>rover\<close> and what is
  delivered between its two calls.\<close>

definition finally_block :: "rover option \<Rightarrow> delivery list \<Rightarrow> rover option \<times> exn list" where
  "finally_block local_rover late =
     (case local_rover of
        None \<Rightarrow> (None, [])
      | Some r \<Rightarrow>
          (case deliver (cleanup r) late of
             (r', surfaced) \<Rightarrow> (Some (vehicle Close r'), surfaced)))"

text \<open>
  The \<^verbatim>\<open>except\<close> clauses of \<^verbatim>\<open>main\<close> and \<^verbatim>\<open>sys.exit(main())\<close>: the exit status for an
  exception raised inside the \<^verbatim>\<open>try\<close>. \<^verbatim>\<open>SystemExit\<close> is caught by no clause and ends
  the process with its own status.
\<close>

definition exit_status :: "exn \<Rightarrow> int" where
  "exit_status e =
     (if e = RuntimeError then 1
      else if e = KeyboardInterrupt then 0
      else if is_Exception e then 1
      else (case e of SystemExit c \<Rightarrow> c | _ \<Rightarrow> 1))"

text \<open>
  The end of a run that had constructed its object: the \<^verbatim>\<open>finally\<close> block, and the
  destructor when the object is freed before the process ends (\<open>freed\<close>).
\<close>

definition shut_down :: "int \<Rightarrow> rover \<Rightarrow> delivery list \<Rightarrow> bool \<Rightarrow> run" where
  "shut_down status r late freed =
     (case finally_block (Some r) late of
        (None, surfaced) \<Rightarrow> Exited status [] surfaced
      | (Some r', surfaced) \<Rightarrow>
          Exited status (trace (if freed then rover_del r' else r')) surfaced)"

text \<open>
  \<^verbatim>\<open>main\<close> and what follows it. When \<^verbatim>\<open>PS3Rover()\<close> raises, \<^verbatim>\<open>rover\<close> is still \<^verbatim>\<open>None\<close>
  in the \<^verbatim>\<open>finally\<close> block, and the object of the failed construction is freed.
\<close>

definition main :: "startup \<Rightarrow> arrival list \<Rightarrow> delivery list \<Rightarrow> bool \<Rightarrow> run" where
  "main env arrivals late freed =
     (case PS3Rover_init env of
        Inl (e, w) \<Rightarrow>
          (case finally_block None late of
             (r, surfaced) \<Rightarrow>
               Exited (exit_status e) (if freed then wreck_del w else []) surfaced)
      | Inr rover \<Rightarrow>
          (case control_loop rover arrivals of
             LoopSleeping r \<Rightarrow> Running r
           | LoopEnded r \<Rightarrow> shut_down 0 r late freed
           | LoopRaised e r \<Rightarrow> shut_down (exit_status e) r late freed))"

subsection \<open>Concrete inputs\<close>

text \<open>A controller with the buttons \<open>pressed\<close> down and the axes at \<open>axes\<close>.\<close>

definition pad :: "nat list \<Rightarrow> (nat \<Rightarrow> real) \<Rightarrow> controller" where
  "pad pressed axes = \<lparr>get_button = (\<lambda>b. b \<in> set pressed), get_axis = axes\<rparr>"

text \<open>A start with one joystick, OpenCV, a window and a capture file.\<close>

definition startup_ok :: startup where
  "startup_ok = \<lparr>rover_connect = None, joystick_count = 1, joystick = pad [] (\<lambda>a. 0),
     cv2_import = True, named_window = None, open_pcm = None\<rparr>"

text \<open>The object that this start constructs.\<close>

definition started :: rover where
  "started = \<lparr>quit = False, controller = pad [] (\<lambda>a. 0), lights_are_on = False,
     stealth_is_on = False, last_button_time = 0, video_enabled = True, cv2_loaded = True,
     pcm_file = Some \<lparr>content = [], is_closed = False\<rparr>, trace = []\<rparr>"

text \<open>A frame that arrives with the buttons \<open>pressed\<close> down and the sticks at rest,
  the clock at \<open>t1\<close> and \<open>t2\<close>, the decoder's outcome \<open>d\<close> and the key code \<open>k\<close>.\<close>

definition frame :: "nat list \<Rightarrow> real \<Rightarrow> real \<Rightarrow> decode_outcome \<Rightarrow> int \<Rightarrow> tick" where
  "frame pressed t1 t2 d k = \<lparr>snapshot = pad pressed (\<lambda>a. 0), clock_lights = t1,
     clock_stealth = t2, decoded = d, imshow_raises = None, wait_key = Inr k\<rparr>"

text \<open>The left stick pushed forward (axis 1 at \<open>-0.8\<close>), the right stick exactly at
  the edge of the dead zone (axis 3 at \<open>0.01\<close>).\<close>

definition tilted :: rover where
  "tilted = started\<lparr>controller := pad [] (\<lambda>a. if a = 1 then - 0.8 else 0.01)\<rparr>"

text \<open>The object right after the pump has seen the lights button down, and after it
  has seen the lights and the stealth button down.\<close>

definition holding_lights :: rover where
  "holding_lights = started\<lparr>controller := pad [BUTTON_LIGHTS] (\<lambda>a. 0)\<rparr>"

definition holding_both :: rover where
  "holding_both = started\<lparr>controller := pad [BUTTON_LIGHTS, BUTTON_STEALTH] (\<lambda>a. 0)\<rparr>"

text \<open>The object when OpenCV is missing: no window, and \<^verbatim>\<open>cv2\<close> is \<^verbatim>\<open>None\<close>.\<close>

definition headless :: rover where
  "headless = started\<lparr>video_enabled := False, cv2_loaded := False\<rparr>"

text \<open>A frame that decodes, shown while the operator presses ESC (key code 27).\<close>

definition esc_frame :: tick where
  "esc_frame = frame [] 10 10 (DecodeImage [0]) 27"

text \<open>An audio batch all of whose writes succeed.\<close>

definition batch :: "int list \<Rightarrow> audio" where
  "batch xs = \<lparr>samples = xs, write_fails_at = None\<rparr>"

text \<open>A start with no joystick connected.\<close>

definition no_joystick :: startup where
  "no_joystick = startup_ok\<lparr>joystick_count := 0\<rparr>"

section \<open>Properties\<close>

subsection \<open>What a call leaves alone\<close>

lemma vehicle_fields [simp]:
  "quit (vehicle c s) = quit s"
  "controller (vehicle c s) = controller s"
  "lights_are_on (vehicle c s) = lights_are_on s"
  "stealth_is_on (vehicle c s) = stealth_is_on s"
  "last_button_time (vehicle c s) = last_button_time s"
  "video_enabled (vehicle c s) = video_enabled s"
  "cv2_loaded (vehicle c s) = cv2_loaded s"
  "pcm_file (vehicle c s) = pcm_file s"
  "trace (vehicle c s) = trace s @ [c]"
  by (simp_all add: vehicle_def)

lemma invoke_fields [simp]:
  "quit (invoke r s) = quit s"
  "controller (invoke r s) = controller s"
  "lights_are_on (invoke r s) = lights_are_on s"
  "stealth_is_on (invoke r s) = stealth_is_on s"
  "last_button_time (invoke r s) = last_button_time s"
  "video_enabled (invoke r s) = video_enabled s"
  "cv2_loaded (invoke r s) = cv2_loaded s"
  "pcm_file (invoke r s) = pcm_file s"
  by (simp_all add: invoke_def split: option.splits)

lemma check_button_fields:
  "quit (snd (check_button s f b on off t)) = quit s"
  "controller (snd (check_button s f b on off t)) = controller s"
  "lights_are_on (snd (check_button s f b on off t)) = lights_are_on s"
  "stealth_is_on (snd (check_button s f b on off t)) = stealth_is_on s"
  "video_enabled (snd (check_button s f b on off t)) = video_enabled s"
  "cv2_loaded (snd (check_button s f b on off t)) = cv2_loaded s"
  "pcm_file (snd (check_button s f b on off t)) = pcm_file s"
  by (simp_all add: check_button_def Let_def)

text \<open>A call flips the flag exactly when the button is down and more than the lag has
  passed since the stored time; a flip stores the clock, anything else leaves it.\<close>

lemma check_button_flips:
  "(fst (check_button s f b on off t) \<noteq> f) =
     (get_button (controller s) b \<and> t - last_button_time s > MIN_BUTTON_LAG_SEC)"
  by (simp add: check_button_def Let_def)

lemma check_button_clock:
  "last_button_time (snd (check_button s f b on off t)) =
     (if fst (check_button s f b on off t) \<noteq> f then t else last_button_time s)"
  by (simp add: check_button_def Let_def)

lemma check_button_trace:
  "trace (snd (check_button s f b (Some on) (Some off) t)) =
     trace s @ (if fst (check_button s f b (Some on) (Some off) t) = f then []
                else if fst (check_button s f b (Some on) (Some off) t) then [on] else [off])"
  by (simp add: check_button_def Let_def invoke_def)

subsection \<open>The axis mapping\<close>

text \<open>
  C5. For every raw axis reading, \<^verbatim>\<open>_get_axis_value\<close> returns -1, 0 or 1; it returns 0
  exactly when the absolute value of the reading is at most the dead zone
  \<open>MIN_AXIS_ABSVAL\<close> (a reading exactly at the edge gives 0); and a result other than 0
  has the sign of the negated reading.
\<close>

theorem axis_value_deadzone:
  "get_axis_value self index \<in> {- 1, 0, 1} \<and>
   (get_axis_value self index = 0 \<longleftrightarrow>
      \<bar>get_axis (controller self) index\<bar> \<le> MIN_AXIS_ABSVAL) \<and>
   (get_axis_value self index \<noteq> 0 \<longrightarrow>
      sgn (real_of_int (get_axis_value self index)) = sgn (- get_axis (controller self) index))"
  by (auto simp: get_axis_value_def MIN_AXIS_ABSVAL_def Let_def sgn_if)

theorem axis_value_deadzone_witness:
  "get_axis_value tilted 3 = 0 \<and> get_axis (controller tilted) 3 = MIN_AXIS_ABSVAL \<and>
   get_axis_value tilted 1 = 1 \<and>
   sgn (real_of_int (get_axis_value tilted 1)) = sgn (- get_axis (controller tilted) 1)"
  using axis_value_deadzone [of tilted 3] axis_value_deadzone [of tilted 1]
  by (simp add: get_axis_value_def tilted_def started_def pad_def MIN_AXIS_ABSVAL_def)

subsection \<open>The debounced buttons\<close>

text \<open>
  C4. With both routines given, as in the two calls of \<^verbatim>\<open>processVideo\<close>, a call of
  \<^verbatim>\<open>_check_button\<close> invokes the on routine, once, exactly when it turns the flag from
  false to true, the off routine, once, exactly when it turns the flag from true to
  false, and no routine when it returns the flag unchanged.
\<close>

theorem check_button_pairs_flip_with_action:
  assumes "check_button self flag button_id (Some on) (Some off) now = (flag', self')"
  shows "trace self' = trace self @
           (if flag' = flag then [] else if flag' then [on] else [off])"
  using check_button_trace [of self flag button_id on off now] assms by simp

theorem check_button_pairs_flip_with_action_witness:
  "check_button holding_lights False BUTTON_LIGHTS (Some TurnLightsOn) (Some TurnLightsOff) 10 =
     (True, holding_lights\<lparr>last_button_time := 10, trace := [TurnLightsOn]\<rparr>) \<and>
   trace (holding_lights\<lparr>last_button_time := 10, trace := [TurnLightsOn]\<rparr>) =
     trace holding_lights @ [TurnLightsOn] \<and>
   check_button (holding_lights\<lparr>last_button_time := 10, trace := [TurnLightsOn]\<rparr>) True
       BUTTON_LIGHTS (Some TurnLightsOn) (Some TurnLightsOff) 10.6 =
     (False, holding_lights\<lparr>last_button_time := 10.6,
                           trace := [TurnLightsOn, TurnLightsOff]\<rparr>) \<and>
   trace (holding_lights\<lparr>last_button_time := 10.6, trace := [TurnLightsOn, TurnLightsOff]\<rparr>) =
     trace (holding_lights\<lparr>last_button_time := 10, trace := [TurnLightsOn]\<rparr>) @
       [TurnLightsOff]"
proof -
  have on: "check_button holding_lights False BUTTON_LIGHTS
      (Some TurnLightsOn) (Some TurnLightsOff) 10 =
     (True, holding_lights\<lparr>last_button_time := 10, trace := [TurnLightsOn]\<rparr>)"
    by (simp add: check_button_def holding_lights_def started_def pad_def invoke_def vehicle_def
        MIN_BUTTON_LAG_SEC_def)
  have off: "check_button (holding_lights\<lparr>last_button_time := 10, trace := [TurnLightsOn]\<rparr>)
      True BUTTON_LIGHTS (Some TurnLightsOn) (Some TurnLightsOff) 10.6 =
     (False, holding_lights\<lparr>last_button_time := 10.6,
                           trace := [TurnLightsOn, TurnLightsOff]\<rparr>)"
    by (simp add: check_button_def holding_lights_def started_def pad_def invoke_def vehicle_def
        MIN_BUTTON_LAG_SEC_def)
  from check_button_pairs_flip_with_action [OF on]
    check_button_pairs_flip_with_action [OF off] on off
  show ?thesis by simp
qed

text \<open>
  C2. The claim gives each control a transition time of its own. The program keeps one
  \<^verbatim>\<open>last_button_time\<close> for both: with both buttons down at clock 10, a stealth check
  made first would flip, and the same check made after the lights check is suppressed;
  in \<^verbatim>\<open>processVideo\<close> the frame with only the stealth button down turns stealth on, the
  frame with both buttons down does not.
\<close>

theorem lights_check_suppresses_stealth_check:
  "fst (check_button holding_both False BUTTON_STEALTH
         (Some TurnStealthOn) (Some TurnStealthOff) 10) = True \<and>
   fst (check_button
         (snd (check_button holding_both False BUTTON_LIGHTS
                 (Some TurnLightsOn) (Some TurnLightsOff) 10))
         False BUTTON_STEALTH (Some TurnStealthOn) (Some TurnStealthOff) 10) = False \<and>
   stealth_is_on (fst (processVideo started
      (frame [BUTTON_STEALTH] 10 10 DecodeNone (- 1)))) = True \<and>
   stealth_is_on (fst (processVideo started
      (frame [BUTTON_LIGHTS, BUTTON_STEALTH] 10 10 DecodeNone (- 1)))) = False"
  by (simp add: processVideo_def display_video_def show_frame_def drive_controls_def
      check_button_def Let_def frame_def pad_def started_def holding_both_def
      MIN_BUTTON_LAG_SEC_def BUTTON_LIGHTS_def BUTTON_STEALTH_def)

text \<open>
  C2, as the program has it. A call of \<^verbatim>\<open>_check_button\<close> for one control leaves both
  flags of the object alone (its caller stores the returned flag in that control's
  field only). The stored time is shared: the call sets it to its clock reading when it
  flips and leaves it otherwise, and the next call, for either control, flips exactly
  when its button is down and its clock reading is more than the lag after that
  shared time.
\<close>

theorem toggles_share_debounce_clock:
  assumes "check_button self flag button_id on_routine off_routine now = (flag', self')"
  shows "lights_are_on self' = lights_are_on self \<and>
         stealth_is_on self' = stealth_is_on self \<and>
         last_button_time self' = (if flag' = flag then last_button_time self else now) \<and>
         (fst (check_button self' flag2 button2 on2 off2 now2) \<noteq> flag2) =
           (get_button (controller self) button2 \<and>
            now2 - (if flag' = flag then last_button_time self else now) > MIN_BUTTON_LAG_SEC)"
  using assms check_button_fields [of self flag button_id on_routine off_routine now]
    check_button_clock [of self flag button_id on_routine off_routine now]
    check_button_flips [of self' flag2 button2 on2 off2 now2]
  by auto

theorem toggles_share_debounce_clock_witness:
  "check_button holding_both False BUTTON_LIGHTS (Some TurnLightsOn) (Some TurnLightsOff) 10 =
     (True, holding_both\<lparr>last_button_time := 10, trace := [TurnLightsOn]\<rparr>) \<and>
   stealth_is_on (holding_both\<lparr>last_button_time := 10, trace := [TurnLightsOn]\<rparr>) =
     stealth_is_on holding_both \<and>
   last_button_time (holding_both\<lparr>last_button_time := 10, trace := [TurnLightsOn]\<rparr>) = 10 \<and>
   fst (check_button (holding_both\<lparr>last_button_time := 10, trace := [TurnLightsOn]\<rparr>)
          False BUTTON_STEALTH (Some TurnStealthOn) (Some TurnStealthOff) 10.2) = False \<and>
   fst (check_button (holding_both\<lparr>last_button_time := 10, trace := [TurnLightsOn]\<rparr>)
          False BUTTON_STEALTH (Some TurnStealthOn) (Some TurnStealthOff) 10.6) = True"
proof -
  have run: "check_button holding_both False BUTTON_LIGHTS
       (Some TurnLightsOn) (Some TurnLightsOff) 10 =
     (True, holding_both\<lparr>last_button_time := 10, trace := [TurnLightsOn]\<rparr>)"
    by (simp add: check_button_def holding_both_def started_def pad_def invoke_def vehicle_def
        MIN_BUTTON_LAG_SEC_def)
  from toggles_share_debounce_clock [OF run, of False BUTTON_STEALTH
      "Some TurnStealthOn" "Some TurnStealthOff" "10.2"]
    toggles_share_debounce_clock [OF run, of False BUTTON_STEALTH
      "Some TurnStealthOn" "Some TurnStealthOff" "10.6"] run
  show ?thesis
    by (simp add: holding_both_def started_def pad_def MIN_BUTTON_LAG_SEC_def)
qed

text \<open>
  C3. The claim bounds only the spacing of consecutive calls. The program compares the
  clock with the time of the last flip, so a button held down flips again once more than
  the lag has passed since then: at the readings 10, 10.4 and 10.8, each 0.4 after the one
  before, the flag flips at 10 and again at 10.8, and both routines are invoked.
\<close>

theorem held_button_flips_twice:
  "snd (snd (evaluate_calls holding_lights False BUTTON_LIGHTS
       (Some TurnLightsOn) (Some TurnLightsOff) [10, 10.4, 10.8])) = 2 \<and>
   trace (fst (snd (evaluate_calls holding_lights False BUTTON_LIGHTS
       (Some TurnLightsOn) (Some TurnLightsOff) [10, 10.4, 10.8]))) =
     [TurnLightsOn, TurnLightsOff]"
  by (simp add: check_button_def holding_lights_def started_def pad_def invoke_def vehicle_def
        MIN_BUTTON_LAG_SEC_def BUTTON_LIGHTS_def)

lemma check_button_suppressed:
  "t - last_button_time s \<le> MIN_BUTTON_LAG_SEC \<Longrightarrow> check_button s f b on off t = (f, s)"
  by (simp add: check_button_def)

lemma evaluate_calls_suppressed:
  "\<forall>t\<in>set ts. t - last_button_time s \<le> MIN_BUTTON_LAG_SEC \<Longrightarrow>
     evaluate_calls s f b on off ts = (f, s, 0)"
  by (induction ts) (simp_all add: check_button_suppressed)

lemma check_button_trace_length:
  "length (trace (snd (check_button s f b on off t))) \<le>
     length (trace s) + (if fst (check_button s f b on off t) = f then 0 else 1)"
  by (simp add: check_button_def Let_def invoke_def split: option.splits)

text \<open>Once a call has flipped, the calls after it are all within the lag of the stored
  time; until one flips, nothing has changed.\<close>

lemma evaluate_calls_window:
  "\<forall>t\<in>set ts. \<forall>u\<in>set ts. u - t \<le> MIN_BUTTON_LAG_SEC \<Longrightarrow>
     snd (snd (evaluate_calls s f b on off ts)) \<le> 1 \<and>
     length (trace (fst (snd (evaluate_calls s f b on off ts)))) \<le>
       length (trace s) + snd (snd (evaluate_calls s f b on off ts))"
proof (induction ts arbitrary: s f)
  case Nil
  then show ?case by simp
next
  case (Cons t ts)
  obtain f1 s1 where step: "check_button s f b on off t = (f1, s1)"
    by (cases "check_button s f b on off t")
  have len1: "length (trace s1) \<le> length (trace s) + (if f1 = f then 0 else 1)"
    using check_button_trace_length [of s f b on off t] step by simp
  show ?case
  proof (cases "f1 = f")
    case True
    have pairs: "\<forall>t\<in>set ts. \<forall>u\<in>set ts. u - t \<le> MIN_BUTTON_LAG_SEC"
      using Cons.prems by simp
    from Cons.IH [OF pairs, of s1 f1] step True len1 show ?thesis
      by (simp split: prod.splits)
  next
    case False
    then have "last_button_time s1 = t"
      using check_button_clock [of s f b on off t] step by simp
    then have "\<forall>u\<in>set ts. u - last_button_time s1 \<le> MIN_BUTTON_LAG_SEC"
      using Cons.prems by simp
    then have "evaluate_calls s1 f1 b on off ts = (f1, s1, 0)"
      by (rule evaluate_calls_suppressed)
    with step False len1 show ?thesis by simp
  qed
qed

text \<open>
  C3, as the program has it. When any two of the calls of a run, consecutive or not, have
  clock readings at most \<open>MIN_BUTTON_LAG_SEC\<close> apart, the flag flips at most once over
  the run and at most one routine is invoked, whether the button is held or not.
\<close>

theorem calls_within_one_lag_flip_once:
  assumes "\<forall>t\<in>set ts. \<forall>u\<in>set ts. u - t \<le> MIN_BUTTON_LAG_SEC"
    and "evaluate_calls self flag button_id on_routine off_routine ts = (flag', self', n)"
  shows "n \<le> 1 \<and> length (trace self') \<le> length (trace self) + 1"
  using evaluate_calls_window [OF assms(1), of self flag button_id on_routine off_routine]
    assms(2)
  by simp

theorem calls_within_one_lag_flip_once_witness:
  "evaluate_calls holding_lights False BUTTON_LIGHTS (Some TurnLightsOn) (Some TurnLightsOff)
       [10, 10.4, 10.5] =
     (True, holding_lights\<lparr>last_button_time := 10, trace := [TurnLightsOn]\<rparr>, 1) \<and>
   length (trace (holding_lights\<lparr>last_button_time := 10, trace := [TurnLightsOn]\<rparr>)) \<le>
     length (trace holding_lights) + 1"
proof -
  have w: "\<forall>t\<in>set [10, 10.4, 10.5::real]. \<forall>u\<in>set [10, 10.4, 10.5].
      u - t \<le> MIN_BUTTON_LAG_SEC"
    by (simp add: MIN_BUTTON_LAG_SEC_def)
  have run: "evaluate_calls holding_lights False BUTTON_LIGHTS (Some TurnLightsOn)
       (Some TurnLightsOff) [10, 10.4, 10.5] =
     (True, holding_lights\<lparr>last_button_time := 10, trace := [TurnLightsOn]\<rparr>, 1)"
    by (simp add: check_button_def holding_lights_def started_def pad_def invoke_def vehicle_def
        MIN_BUTTON_LAG_SEC_def BUTTON_LIGHTS_def)
  from calls_within_one_lag_flip_once [OF w run] run show ?thesis by simp
qed

subsection \<open>One video frame\<close>

lemma show_frame_fields:
  "controller (fst (show_frame s i)) = controller s"
  "lights_are_on (fst (show_frame s i)) = lights_are_on s"
  "stealth_is_on (fst (show_frame s i)) = stealth_is_on s"
  "last_button_time (fst (show_frame s i)) = last_button_time s"
  "video_enabled (fst (show_frame s i)) = video_enabled s"
  "cv2_loaded (fst (show_frame s i)) = cv2_loaded s"
  "pcm_file (fst (show_frame s i)) = pcm_file s"
  by (simp_all add: show_frame_def Let_def split: decode_outcome.splits option.splits sum.splits)

lemma display_video_fields:
  "controller (fst (display_video s i)) = controller s"
  "lights_are_on (fst (display_video s i)) = lights_are_on s"
  "stealth_is_on (fst (display_video s i)) = stealth_is_on s"
  "last_button_time (fst (display_video s i)) = last_button_time s"
  "video_enabled (fst (display_video s i)) = video_enabled s"
  "cv2_loaded (fst (display_video s i)) = cv2_loaded s"
  "pcm_file (fst (display_video s i)) = pcm_file s"
  using show_frame_fields [of s i]
  by (auto simp: display_video_def split: prod.splits option.splits)

text \<open>
  C10. The claim lets at most one flag flip in any frame with both buttons down and the
  lag elapsed. Each check reads the clock itself, the stealth check after the lights
  check has called \<^verbatim>\<open>turnLightsOn()\<close>: when the lights check reads 10 and the stealth
  check reads 10.6, the stealth check is more than the lag after the stored time 10 and
  flips too, so one \<^verbatim>\<open>processVideo\<close> turns on both.
\<close>

theorem both_flags_flip_in_slow_tick:
  "get_button (snapshot (frame [BUTTON_LIGHTS, BUTTON_STEALTH] 10 10.6 DecodeNone (- 1)))
     BUTTON_LIGHTS \<and>
   get_button (snapshot (frame [BUTTON_LIGHTS, BUTTON_STEALTH] 10 10.6 DecodeNone (- 1)))
     BUTTON_STEALTH \<and>
   clock_lights (frame [BUTTON_LIGHTS, BUTTON_STEALTH] 10 10.6 DecodeNone (- 1)) -
     last_button_time started > MIN_BUTTON_LAG_SEC \<and>
   lights_are_on started = False \<and> stealth_is_on started = False \<and>
   lights_are_on (fst (processVideo started
      (frame [BUTTON_LIGHTS, BUTTON_STEALTH] 10 10.6 DecodeNone (- 1)))) = True \<and>
   stealth_is_on (fst (processVideo started
      (frame [BUTTON_LIGHTS, BUTTON_STEALTH] 10 10.6 DecodeNone (- 1)))) = True \<and>
   trace (fst (processVideo started
      (frame [BUTTON_LIGHTS, BUTTON_STEALTH] 10 10.6 DecodeNone (- 1)))) =
     [TurnLightsOn, TurnStealthOn, MoveCameraVertical 0, SetTreads 0 0]"
  by (simp add: processVideo_def display_video_def show_frame_def drive_controls_def
      check_button_def get_axis_value_def invoke_def vehicle_def Let_def frame_def pad_def
      started_def MIN_BUTTON_LAG_SEC_def MIN_AXIS_ABSVAL_def BUTTON_LIGHTS_def
      BUTTON_STEALTH_def BUTTON_CAMERA_UP_def BUTTON_CAMERA_DOWN_def)

text \<open>
  C10, as the program has it. In one call of \<^verbatim>\<open>processVideo\<close> with the lights and the
  stealth button both down and more than the lag passed since the stored time, when the
  stealth check reads the clock no more than the lag after the lights check, the lights
  flag flips, the stored time becomes the clock reading of the lights check, and the
  stealth flag stays as it was.
\<close>

theorem lights_flip_suppresses_stealth_in_tick:
  assumes "get_button (snapshot i) BUTTON_LIGHTS"
    and "get_button (snapshot i) BUTTON_STEALTH"
    and "clock_lights i - last_button_time self > MIN_BUTTON_LAG_SEC"
    and "clock_stealth i - clock_lights i \<le> MIN_BUTTON_LAG_SEC"
  shows "lights_are_on (fst (processVideo self i)) = (\<not> lights_are_on self) \<and>
         stealth_is_on (fst (processVideo self i)) = stealth_is_on self \<and>
         last_button_time (fst (processVideo self i)) = clock_lights i"
  using assms
  by (simp add: processVideo_def display_video_fields drive_controls_def check_button_def Let_def)

theorem lights_flip_suppresses_stealth_in_tick_witness:
  "lights_are_on (fst (processVideo started
      (frame [BUTTON_LIGHTS, BUTTON_STEALTH] 10 10.001 DecodeNone (- 1)))) \<and>
   \<not> stealth_is_on (fst (processVideo started
      (frame [BUTTON_LIGHTS, BUTTON_STEALTH] 10 10.001 DecodeNone (- 1)))) \<and>
   last_button_time (fst (processVideo started
      (frame [BUTTON_LIGHTS, BUTTON_STEALTH] 10 10.001 DecodeNone (- 1)))) = 10"
  using lights_flip_suppresses_stealth_in_tick
    [of "frame [BUTTON_LIGHTS, BUTTON_STEALTH] 10 10.001 DecodeNone (- 1)" started]
  by (simp add: frame_def pad_def started_def MIN_BUTTON_LAG_SEC_def)

text \<open>What a frame adds to the trace: the toggles' commands, one camera command, one
  tread command, and at most the display of the image.\<close>

lemma check_button_trace_toggle:
  "\<exists>new. trace (snd (check_button s f b (Some on) (Some off) t)) = trace s @ new \<and>
     set new \<subseteq> {on, off}"
  by (simp add: check_button_def Let_def invoke_def)

lemma show_frame_trace:
  "\<exists>new. trace (fst (show_frame s i)) = trace s @ new \<and> (\<forall>c\<in>set new. \<exists>img. c = Imshow img)"
  by (simp add: show_frame_def Let_def split: decode_outcome.splits option.splits sum.splits)

lemma display_video_trace:
  "\<exists>new. trace (fst (display_video s i)) = trace s @ new \<and> (\<forall>c\<in>set new. \<exists>img. c = Imshow img)"
  using show_frame_trace [of s i]
  by (auto simp: display_video_def split: prod.splits option.splits)

lemma get_axis_value_controller:
  "controller a = controller b \<Longrightarrow> get_axis_value a k = get_axis_value b k"
  by (simp add: get_axis_value_def)

lemma drive_controls_trace:
  "\<exists>toggles. trace (drive_controls s i) =
      trace s @ toggles @
        [MoveCameraVertical (if get_button (snapshot i) BUTTON_CAMERA_UP then 1
           else if get_button (snapshot i) BUTTON_CAMERA_DOWN then - 1 else 0),
         SetTreads (get_axis_value (s\<lparr>controller := snapshot i\<rparr>) 1)
                   (get_axis_value (s\<lparr>controller := snapshot i\<rparr>) 3)] \<and>
      set toggles \<subseteq> {TurnLightsOn, TurnLightsOff, TurnStealthOn, TurnStealthOff}"
proof -
  define s1 where "s1 = s\<lparr>controller := snapshot i\<rparr>"
  define r1 where "r1 = check_button s1 (lights_are_on s1) BUTTON_LIGHTS
      (Some TurnLightsOn) (Some TurnLightsOff) (clock_lights i)"
  define s3 where "s3 = (snd r1)\<lparr>lights_are_on := fst r1\<rparr>"
  define r2 where "r2 = check_button s3 (stealth_is_on s3) BUTTON_STEALTH
      (Some TurnStealthOn) (Some TurnStealthOff) (clock_stealth i)"
  define s5 where "s5 = (snd r2)\<lparr>stealth_is_on := fst r2\<rparr>"
  obtain n1 where n1: "trace (snd r1) = trace s1 @ n1" "set n1 \<subseteq> {TurnLightsOn, TurnLightsOff}"
    unfolding r1_def using check_button_trace_toggle by blast
  obtain n2 where n2: "trace (snd r2) = trace s3 @ n2" "set n2 \<subseteq> {TurnStealthOn, TurnStealthOff}"
    unfolding r2_def using check_button_trace_toggle by blast
  have c5: "controller s5 = snapshot i"
    by (simp add: s5_def r2_def s3_def r1_def s1_def check_button_fields)
  have t5: "trace s5 = trace s @ n1 @ n2"
    using n1 n2 by (simp add: s5_def s3_def s1_def)
  have ax: "get_axis_value (vehicle c s5) k = get_axis_value (s\<lparr>controller := snapshot i\<rparr>) k"
    for c k
    by (rule get_axis_value_controller) (simp add: c5)
  have eq: "drive_controls s i =
      (let s6 = (if get_button (controller s5) BUTTON_CAMERA_UP
                   then vehicle (MoveCameraVertical 1) s5
                 else if get_button (controller s5) BUTTON_CAMERA_DOWN
                   then vehicle (MoveCameraVertical (- 1)) s5
                 else vehicle (MoveCameraVertical 0) s5)
       in vehicle (SetTreads (get_axis_value s6 1) (get_axis_value s6 3)) s6)"
    by (simp add: drive_controls_def s5_def r2_def s3_def r1_def s1_def Let_def case_prod_beta)
  have "trace (drive_controls s i) =
      trace s @ (n1 @ n2) @
        [MoveCameraVertical (if get_button (snapshot i) BUTTON_CAMERA_UP then 1
           else if get_button (snapshot i) BUTTON_CAMERA_DOWN then - 1 else 0),
         SetTreads (get_axis_value (s\<lparr>controller := snapshot i\<rparr>) 1)
                   (get_axis_value (s\<lparr>controller := snapshot i\<rparr>) 3)]"
    unfolding eq by (simp add: Let_def c5 t5 ax)
  moreover have "set (n1 @ n2) \<subseteq> {TurnLightsOn, TurnLightsOff, TurnStealthOn, TurnStealthOff}"
    using n1(2) n2(2) by auto
  ultimately show ?thesis by blast
qed

text \<open>
  C8. The calls that one \<^verbatim>\<open>processVideo\<close> adds to the trace hold exactly one camera
  command: \<^verbatim>\<open>moveCameraVertical(1)\<close> when the camera-up button is down, whatever the
  camera-down button; else \<^verbatim>\<open>moveCameraVertical(-1)\<close> when the camera-down button is
  down; else \<^verbatim>\<open>moveCameraVertical(0)\<close>.
\<close>

theorem one_camera_command_per_frame:
  "take (length (trace self)) (trace (fst (processVideo self i))) = trace self \<and>
   filter is_camera (drop (length (trace self)) (trace (fst (processVideo self i)))) =
     [MoveCameraVertical
        (if get_button (snapshot i) BUTTON_CAMERA_UP then 1
         else if get_button (snapshot i) BUTTON_CAMERA_DOWN then - 1
         else 0)]"
proof -
  obtain toggles where d: "trace (drive_controls self i) =
      trace self @ toggles @
        [MoveCameraVertical (if get_button (snapshot i) BUTTON_CAMERA_UP then 1
           else if get_button (snapshot i) BUTTON_CAMERA_DOWN then - 1 else 0),
         SetTreads (get_axis_value (self\<lparr>controller := snapshot i\<rparr>) 1)
                   (get_axis_value (self\<lparr>controller := snapshot i\<rparr>) 3)]"
    and t: "set toggles \<subseteq> {TurnLightsOn, TurnLightsOff, TurnStealthOn, TurnStealthOff}"
    using drive_controls_trace [of self i] by blast
  obtain shown where v: "trace (fst (display_video (drive_controls self i) i)) =
      trace (drive_controls self i) @ shown"
    and w: "\<forall>c\<in>set shown. \<exists>img. c = Imshow img"
    using display_video_trace [of "drive_controls self i" i] by blast
  have "filter is_camera toggles = []"
    using t by (auto simp: filter_empty_conv)
  moreover have "filter is_camera shown = []"
    using w by (auto simp: filter_empty_conv)
  ultimately show ?thesis
    by (simp add: processVideo_def v d)
qed

theorem one_camera_command_per_frame_witness:
  "filter is_camera (drop (length (trace started)) (trace (fst (processVideo started
      (frame [BUTTON_CAMERA_UP, BUTTON_CAMERA_DOWN] 10 10 DecodeNone (- 1)))))) =
     [MoveCameraVertical 1] \<and>
   filter is_camera (drop (length (trace started)) (trace (fst (processVideo started
      (frame [BUTTON_CAMERA_DOWN] 10 10 DecodeNone (- 1)))))) = [MoveCameraVertical (- 1)] \<and>
   filter is_camera (drop (length (trace started)) (trace (fst (processVideo started
      (frame [] 10 10 DecodeNone (- 1)))))) = [MoveCameraVertical 0]"
  using one_camera_command_per_frame
      [of started "frame [BUTTON_CAMERA_UP, BUTTON_CAMERA_DOWN] 10 10 DecodeNone (- 1)"]
    one_camera_command_per_frame [of started "frame [BUTTON_CAMERA_DOWN] 10 10 DecodeNone (- 1)"]
    one_camera_command_per_frame [of started "frame [] 10 10 DecodeNone (- 1)"]
  by (simp add: frame_def pad_def started_def BUTTON_CAMERA_UP_def BUTTON_CAMERA_DOWN_def)

lemma drive_controls_fields:
  "quit (drive_controls s i) = quit s"
  "video_enabled (drive_controls s i) = video_enabled s"
  "cv2_loaded (drive_controls s i) = cv2_loaded s"
  "pcm_file (drive_controls s i) = pcm_file s"
  by (simp_all add: drive_controls_def Let_def case_prod_beta check_button_fields)

lemma display_video_dropped:
  assumes "decoded i = DecodeNone \<or> decoded i = DecodeRaises Cv2Error \<or>
           decoded i = DecodeRaises ValueError \<or> \<not> (video_enabled s \<and> cv2_loaded s)"
  shows "display_video s i = (s, None)"
  using assms by (auto simp: display_video_def show_frame_def)

text \<open>
  C6. A frame whose payload does not decode (\<^verbatim>\<open>imdecode\<close> returns \<^verbatim>\<open>None\<close>, or the decoding
  raises \<^verbatim>\<open>cv2.error\<close> or \<^verbatim>\<open>ValueError\<close>, as for an empty payload) leaves
  \<^verbatim>\<open>processVideo\<close> without an exception, with \<open>quit\<close> as it was and with no
  \<^verbatim>\<open>imshow\<close> among the calls of the frame; and the same holds for every frame when there
  is no window (\<^verbatim>\<open>video_enabled\<close> false or OpenCV missing).
\<close>

theorem undecodable_frame_is_dropped:
  assumes "decoded i = DecodeNone \<or> decoded i = DecodeRaises Cv2Error \<or>
           decoded i = DecodeRaises ValueError \<or>
           \<not> (video_enabled self \<and> cv2_loaded self)"
  shows "processVideo self i = (drive_controls self i, None) \<and>
         quit (fst (processVideo self i)) = quit self \<and>
         (\<forall>img. Imshow img \<notin> set (drop (length (trace self)) (trace (fst (processVideo self i)))))"
proof -
  have p: "processVideo self i = (drive_controls self i, None)"
    unfolding processVideo_def
    by (rule display_video_dropped) (use assms in \<open>simp add: drive_controls_fields\<close>)
  obtain toggles c t where d: "trace (drive_controls self i) =
      trace self @ toggles @ [MoveCameraVertical c, t]" "\<exists>l r. t = SetTreads l r"
    and t: "set toggles \<subseteq> {TurnLightsOn, TurnLightsOff, TurnStealthOn, TurnStealthOff}"
    using drive_controls_trace [of self i] by blast
  have "Imshow img \<notin> set (toggles @ [MoveCameraVertical c, t])" for img
    using t d(2) by auto
  then show ?thesis
    by (simp add: p d drive_controls_fields)
qed

theorem undecodable_frame_is_dropped_witness:
  "snd (processVideo started (frame [] 10 10 (DecodeRaises Cv2Error) 27)) = None \<and>
   quit (fst (processVideo started (frame [] 10 10 (DecodeRaises Cv2Error) 27))) = False \<and>
   snd (processVideo started (frame [] 10 10 DecodeNone 27)) = None \<and>
   quit (fst (processVideo started (frame [] 10 10 DecodeNone 27))) = False \<and>
   quit (fst (processVideo headless (frame [] 10 10 (DecodeImage [0]) 27))) = False"
proof -
  have a: "decoded (frame [] 10 10 (DecodeRaises Cv2Error) 27) = DecodeRaises Cv2Error"
    and b: "decoded (frame [] 10 10 DecodeNone 27) = DecodeNone"
    and c: "\<not> (video_enabled headless \<and> cv2_loaded headless)"
    and q: "quit started = False" "quit headless = False"
    by (simp_all add: frame_def headless_def started_def)
  note raised = undecodable_frame_is_dropped [OF disjI2, OF disjI1, OF a, of started]
  note none = undecodable_frame_is_dropped [OF disjI1, OF b, of started]
  note nowindow = undecodable_frame_is_dropped [OF disjI2, OF disjI2, OF disjI2, OF c,
      of "frame [] 10 10 (DecodeImage [0]) 27"]
  have "snd (processVideo started (frame [] 10 10 (DecodeRaises Cv2Error) 27)) = None"
    by (simp add: raised [THEN conjunct1])
  moreover have "snd (processVideo started (frame [] 10 10 DecodeNone 27)) = None"
    by (simp add: none [THEN conjunct1])
  ultimately show ?thesis
    using raised [THEN conjunct2, THEN conjunct1] none [THEN conjunct2, THEN conjunct1]
      nowindow [THEN conjunct2, THEN conjunct1] q
    by simp
qed

lemma processVideo_keeps_resources:
  "video_enabled (fst (processVideo s i)) = video_enabled s"
  "cv2_loaded (fst (processVideo s i)) = cv2_loaded s"
  "pcm_file (fst (processVideo s i)) = pcm_file s"
  by (simp_all add: processVideo_def display_video_fields drive_controls_fields)

subsection \<open>The quit flag\<close>

lemma processAudio_fields:
  "quit (fst (processAudio s a)) = quit s"
  "trace (fst (processAudio s a)) = trace s"
  "video_enabled (fst (processAudio s a)) = video_enabled s"
  "cv2_loaded (fst (processAudio s a)) = cv2_loaded s"
  by (simp_all add: processAudio_def split: option.splits prod.splits)

lemma cleanup_fields:
  "quit (cleanup s) = quit s"
  "video_enabled (cleanup s) = video_enabled s"
  "cv2_loaded (cleanup s) = cv2_loaded s"
  by (simp_all add: cleanup_def Let_def split: option.splits)

lemma PS3Rover_init_fresh:
  "PS3Rover_init env = Inr r \<Longrightarrow> \<not> quit r \<and> trace r = []"
  by (auto simp: PS3Rover_init_def split: option.splits if_splits sum.splits)

lemma show_frame_quit:
  "quit (fst (show_frame s i)) =
     (quit s \<or> (\<exists>img k. decoded i = DecodeImage img \<and> imshow_raises i = None \<and>
                  wait_key i = Inr k \<and> k AND 255 = 27))"
  by (auto simp: show_frame_def Let_def split: decode_outcome.splits option.splits sum.splits)

lemma display_video_quit:
  "quit (fst (display_video s i)) =
     (quit s \<or> (video_enabled s \<and> cv2_loaded s \<and>
        (\<exists>img k. decoded i = DecodeImage img \<and> imshow_raises i = None \<and>
                  wait_key i = Inr k \<and> k AND 255 = 27)))"
  using show_frame_quit [of s i]
  by (auto simp: display_video_def split: prod.splits option.splits)

lemma processVideo_quit:
  "quit (fst (processVideo s i)) =
     (quit s \<or> (video_enabled s \<and> cv2_loaded s \<and>
        (\<exists>img k. decoded i = DecodeImage img \<and> imshow_raises i = None \<and>
                  wait_key i = Inr k \<and> k AND 255 = 27)))"
  by (simp add: processVideo_def display_video_quit drive_controls_fields)

lemma control_loop_ended:
  "control_loop s arrivals = LoopEnded s' \<Longrightarrow> quit s'"
  by (induction s arrivals rule: control_loop.induct)
     (auto simp: signal_handler_def f_globals_get_rover_def split: if_splits arrival.splits)

text \<open>
  C9. \<open>quit\<close> is false in the object that \<^verbatim>\<open>__init__\<close> returns. No method turns it from
  true to false: \<^verbatim>\<open>processVideo\<close> keeps it true once true, and \<^verbatim>\<open>processAudio\<close>,
  \<^verbatim>\<open>_check_button\<close>, \<^verbatim>\<open>cleanup\<close> and the vehicle commands leave it as it is. It turns
  true only in a \<^verbatim>\<open>processVideo\<close> that has a window, decoded the frame and read a key
  whose low byte is 27. While it is false the loop of \<^verbatim>\<open>main\<close> goes on (it sleeps, or
  takes the next frame or batch), and the loop ends only with \<open>quit\<close> true.
\<close>

theorem quit_flag_monotone:
  "(PS3Rover_init env = Inr r \<longrightarrow> \<not> quit r) \<and>
   (quit self \<longrightarrow> quit (fst (processVideo self i))) \<and>
   quit (fst (processAudio self a)) = quit self \<and>
   quit (snd (check_button self flag button_id on_routine off_routine now)) = quit self \<and>
   quit (cleanup self) = quit self \<and>
   quit (vehicle c self) = quit self \<and>
   (\<not> quit self \<and> quit (fst (processVideo self i)) \<longrightarrow>
      video_enabled self \<and> cv2_loaded self \<and>
      (\<exists>img k. decoded i = DecodeImage img \<and> wait_key i = Inr k \<and> k AND 255 = 27)) \<and>
   (\<not> quit self \<longrightarrow>
      control_loop self [] = LoopSleeping self \<and>
      control_loop self (VideoFrame i # arrivals) =
        control_loop (fst (processVideo self i)) arrivals \<and>
      control_loop self (AudioBatch a # arrivals) =
        control_loop (fst (processAudio self a)) arrivals) \<and>
   (control_loop self arrivals = LoopEnded r' \<longrightarrow> quit r')"
  using PS3Rover_init_fresh [of env r] control_loop_ended [of self arrivals r']
  by (auto simp: processVideo_quit processAudio_fields check_button_fields cleanup_fields)

lemma init_started: "PS3Rover_init startup_ok = Inr started"
  by (simp add: PS3Rover_init_def startup_ok_def started_def create_window_def open_capture_def)

theorem quit_flag_monotone_witness:
  "PS3Rover_init startup_ok = Inr started \<and> quit started = False \<and>
   control_loop started [] = LoopSleeping started \<and>
   quit (fst (processVideo started esc_frame)) = True \<and>
   quit (fst (processVideo (fst (processVideo started esc_frame))
      (frame [] 11 11 DecodeNone (- 1)))) = True"
proof -
  have esc: "quit (fst (processVideo started esc_frame)) = True"
    by (simp add: processVideo_quit esc_frame_def frame_def started_def)
  note m1 = quit_flag_monotone [of startup_ok started started]
  note m2 = quit_flag_monotone [of startup_ok started "fst (processVideo started esc_frame)"
      "frame [] 11 11 DecodeNone (- 1)"]
  have "quit started = False"
    using m1 [THEN conjunct1] init_started by simp
  moreover from this have "control_loop started [] = LoopSleeping started"
    using m1 [THEN conjunct2, THEN conjunct2, THEN conjunct2, THEN conjunct2,
        THEN conjunct2, THEN conjunct2, THEN conjunct2, THEN conjunct1] by simp
  moreover have "quit (fst (processVideo (fst (processVideo started esc_frame))
      (frame [] 11 11 DecodeNone (- 1)))) = True"
    using m2 [THEN conjunct2, THEN conjunct1] esc by simp
  ultimately show ?thesis
    using init_started esc by simp
qed

subsection \<open>The audio capture\<close>

lemma write_samples_open:
  "\<not> is_closed f \<Longrightarrow>
     write_samples f fails xs =
       (f\<lparr>content := content f @
            concat (map sample_line (take (case fails of None \<Rightarrow> length xs | Some k \<Rightarrow> k) xs))\<rparr>,
        if (\<exists>k. fails = Some k \<and> k < length xs) then Some IOError else None)"
proof (induction xs arbitrary: f fails)
  case Nil
  then show ?case by simp
next
  case (Cons x xs)
  show ?case
  proof (cases fails)
    case None
    with Cons show ?thesis by simp
  next
    case (Some k)
    with Cons show ?thesis
      by (cases k) auto
  qed
qed

text \<open>
  While the capture file is open, \<^verbatim>\<open>processAudio\<close> appends one line per sample, in the
  order of the batch, up to the first write that raises \<^verbatim>\<open>IOError\<close>; it raises nothing,
  and what was written before stays. When the file could not be opened (\<^verbatim>\<open>pcm_file\<close> is
  \<^verbatim>\<open>None\<close>) it does nothing and raises nothing.
\<close>

lemma processAudio_appends:
  assumes "pcm_file self = None \<or> (\<exists>f. pcm_file self = Some f \<and> \<not> is_closed f)"
  shows "processAudio self a =
           (self\<lparr>pcm_file :=
               map_option
                 (\<lambda>f. f\<lparr>content := content f @
                    concat (map sample_line
                      (take (case write_fails_at a of None \<Rightarrow> length (samples a) | Some k \<Rightarrow> k)
                         (samples a)))\<rparr>)
                 (pcm_file self)\<rparr>,
            None)"
  using assms
  by (auto simp: processAudio_def write_samples_open)

text \<open>A line is the decimal numeral of the sample, with its sign, and a line feed.\<close>

lemma sample_line_examples:
  "sample_line 1 = [CHR ''1'', CHR 0x0A]"
  "sample_line 2 = [CHR ''2'', CHR 0x0A]"
  "sample_line 3 = [CHR ''3'', CHR 0x0A]"
  "sample_line 4 = [CHR ''4'', CHR 0x0A]"
  "sample_line 5 = [CHR ''5'', CHR 0x0A]"
  "sample_line (- 120) = [CHR ''-'', CHR ''1'', CHR ''2'', CHR ''0'', CHR 0x0A]"
  by (simp_all add: sample_line_def str_int_def digit_char_def newline_def)

text \<open>From construction to the end of the loop the capture file, if there is one, is
  never closed, so the callbacks of the loop meet the file as C7 takes it.\<close>

lemma processAudio_keeps_open:
  assumes "pcm_file s = None \<or> (\<exists>f. pcm_file s = Some f \<and> \<not> is_closed f)"
  shows "pcm_file (fst (processAudio s a)) = None \<or>
         (\<exists>f. pcm_file (fst (processAudio s a)) = Some f \<and> \<not> is_closed f)"
  using assms by (auto simp: processAudio_def write_samples_open)

lemma control_loop_keeps_open:
  assumes "pcm_file s = None \<or> (\<exists>f. pcm_file s = Some f \<and> \<not> is_closed f)"
  shows "pcm_file (rover_of (control_loop s arrivals)) = None \<or>
         (\<exists>f. pcm_file (rover_of (control_loop s arrivals)) = Some f \<and> \<not> is_closed f)"
  using assms
proof (induction s arrivals rule: control_loop.induct)
  case (1 rover)
  then show ?case by simp
next
  case (2 rover a arrivals)
  show ?case
  proof (cases "quit rover")
    case True
    with 2 show ?thesis by simp
  next
    case False
    show ?thesis
    proof (cases a)
      case (VideoFrame i)
      with False 2 show ?thesis by (simp add: processVideo_keeps_resources)
    next
      case (AudioBatch b)
      with False 2 processAudio_keeps_open [of rover b] show ?thesis by simp
    next
      case Interrupt
      with False 2 show ?thesis
        by (simp add: signal_handler_def f_globals_get_rover_def)
    qed
  qed
qed

lemma PS3Rover_init_open:
  "PS3Rover_init env = Inr r \<Longrightarrow>
     pcm_file r = None \<or> (\<exists>f. pcm_file r = Some f \<and> \<not> is_closed f)"
  by (auto simp: PS3Rover_init_def open_capture_def split: option.splits if_splits sum.splits)

subsection \<open>Shutdown\<close>

lemmas run_defs = main_def shut_down_def PS3Rover_init_def create_window_def open_capture_def
  startup_ok_def no_joystick_def finally_block_def exit_status_def cleanup_def rover_del_def
  wreck_del_def vehicle_def invoke_def signal_handler_def f_globals_get_rover_def
  processVideo_def display_video_def show_frame_def drive_controls_def check_button_def
  get_axis_value_def processAudio_def
  esc_frame_def frame_def pad_def batch_def Let_def
  BUTTON_LIGHTS_def BUTTON_STEALTH_def BUTTON_CAMERA_UP_def BUTTON_CAMERA_DOWN_def
  MIN_AXIS_ABSVAL_def MIN_BUTTON_LAG_SEC_def

text \<open>
  C7. From a fresh object the batches 1, 2, 3 and 4, 5 leave the five lines 1 to 5 in
  the file, and a write that raises \<^verbatim>\<open>IOError\<close> in the middle of a batch is swallowed
  with the lines before it kept. The handler
  \<^verbatim>\<open>except IOError: pass  # Continue if file write fails\<close> does not cover every failing
  write, though: the \<^verbatim>\<open>finally\<close> block of \<^verbatim>\<open>main\<close> closes the file in \<^verbatim>\<open>cleanup()\<close>
  before \<^verbatim>\<open>close()\<close> stops the media thread, \<^verbatim>\<open>self.pcm_file\<close> is still a file object,
  and a batch that arrives in between is written to the closed file. That write raises
  \<^verbatim>\<open>ValueError\<close>, which leaves \<^verbatim>\<open>processAudio\<close>.
\<close>

theorem batch_after_cleanup_raises:
  "processAudio (fst (processAudio started (batch [1, 2, 3]))) (batch [4, 5]) =
     (started\<lparr>pcm_file := Some \<lparr>content =
         [CHR ''1'', CHR 0x0A, CHR ''2'', CHR 0x0A, CHR ''3'', CHR 0x0A,
          CHR ''4'', CHR 0x0A, CHR ''5'', CHR 0x0A],
         is_closed = False\<rparr>\<rparr>, None) \<and>
   processAudio (fst (processAudio started (batch [1, 2, 3])))
       \<lparr>samples = [4, 5], write_fails_at = Some 1\<rparr> =
     (started\<lparr>pcm_file := Some \<lparr>content =
         [CHR ''1'', CHR 0x0A, CHR ''2'', CHR 0x0A, CHR ''3'', CHR 0x0A, CHR ''4'', CHR 0x0A],
         is_closed = False\<rparr>\<rparr>, None) \<and>
   processAudio (cleanup started) (batch [1, 2]) = (cleanup started, Some ValueError) \<and>
   main startup_ok [VideoFrame esc_frame] [LateBatch (batch [1, 2])] False =
     Exited 0 [MoveCameraVertical 0, SetTreads 0 0, Imshow [0],
               Cleanup, PcmClose, DestroyAllWindows, Close] [ValueError]"
proof -
  have opened: "pcm_file started = None \<or> (\<exists>f. pcm_file started = Some f \<and> \<not> is_closed f)"
    by (simp add: started_def)
  have first: "processAudio started (batch [1, 2, 3]) =
      (started\<lparr>pcm_file := Some \<lparr>content =
         [CHR ''1'', CHR 0x0A, CHR ''2'', CHR 0x0A, CHR ''3'', CHR 0x0A],
         is_closed = False\<rparr>\<rparr>, None)"
    using processAudio_appends [OF opened, of "batch [1, 2, 3]"]
    by (simp add: batch_def started_def sample_line_examples)
  have still: "pcm_file (fst (processAudio started (batch [1, 2, 3]))) = None \<or>
      (\<exists>f. pcm_file (fst (processAudio started (batch [1, 2, 3]))) = Some f \<and> \<not> is_closed f)"
    by (simp add: first)
  have second: "processAudio (fst (processAudio started (batch [1, 2, 3]))) (batch [4, 5]) =
     (started\<lparr>pcm_file := Some \<lparr>content =
         [CHR ''1'', CHR 0x0A, CHR ''2'', CHR 0x0A, CHR ''3'', CHR 0x0A,
          CHR ''4'', CHR 0x0A, CHR ''5'', CHR 0x0A],
         is_closed = False\<rparr>\<rparr>, None)"
    using processAudio_appends [OF still, of "batch [4, 5]"]
    unfolding first by (simp add: batch_def started_def sample_line_examples)
  have broken: "processAudio (fst (processAudio started (batch [1, 2, 3])))
       \<lparr>samples = [4, 5], write_fails_at = Some 1\<rparr> =
     (started\<lparr>pcm_file := Some \<lparr>content =
         [CHR ''1'', CHR 0x0A, CHR ''2'', CHR 0x0A, CHR ''3'', CHR 0x0A, CHR ''4'', CHR 0x0A],
         is_closed = False\<rparr>\<rparr>, None)"
    using processAudio_appends [OF still, of "\<lparr>samples = [4, 5], write_fails_at = Some 1\<rparr>"]
    unfolding first by (simp add: started_def sample_line_examples)
  have closed: "processAudio (cleanup started) (batch [1, 2]) =
      (cleanup started, Some ValueError)"
    by (simp add: processAudio_def cleanup_def started_def batch_def Let_def)
  have late: "main startup_ok [VideoFrame esc_frame] [LateBatch (batch [1, 2])] False =
     Exited 0 [MoveCameraVertical 0, SetTreads 0 0, Imshow [0],
               Cleanup, PcmClose, DestroyAllWindows, Close] [ValueError]"
    by (simp add: run_defs)
  from second broken closed late show ?thesis by simp
qed
















end
